theory Spec2Isabelle
  imports Main
begin

section \<open>Text as Python sees it\<close>

text \<open>
  A Python \<open>str\<close> is a sequence of Unicode code points, so text is a list of natural
  numbers. \<open>U\<close> writes the ASCII part of a literal; the CJK characters of the
  program's literals are given by their code points.
\<close>

type_synonym ustring = "nat list"

definition U :: "string \<Rightarrow> ustring" where
  "U s = map of_char s"

text \<open>\<open>str.isspace\<close>, which is also what \<open>str.strip\<close> removes and what \<open>\s\<close> matches.\<close>

definition isspace :: "nat \<Rightarrow> bool" where
  "isspace c \<longleftrightarrow>
     (9 \<le> c \<and> c \<le> 13) \<or> (28 \<le> c \<and> c \<le> 32) \<or> c = 133 \<or> c = 160 \<or> c = 5760 \<or>
     (8192 \<le> c \<and> c \<le> 8202) \<or> c = 8232 \<or> c = 8233 \<or> c = 8239 \<or> c = 8287 \<or> c = 12288"

text \<open>The line boundaries of \<open>str.splitlines\<close>.\<close>

definition islinebreak :: "nat \<Rightarrow> bool" where
  "islinebreak c \<longleftrightarrow>
     (10 \<le> c \<and> c \<le> 13) \<or> (28 \<le> c \<and> c \<le> 30) \<or> c = 133 \<or> c = 8232 \<or> c = 8233"

text \<open>
  \<open>\d\<close> matches the decimal digits of Unicode (category Nd). The ASCII digits are
  written out; which code points beyond ASCII are digits is a table of the Python
  runtime's Unicode database, taken as the parameter \<open>nd\<close>.
\<close>

definition isdecimal :: "(nat \<Rightarrow> bool) \<Rightarrow> nat \<Rightarrow> bool" where
  "isdecimal nd c \<longleftrightarrow> (48 \<le> c \<and> c \<le> 57) \<or> (127 < c \<and> nd c)"

definition str_strip :: "ustring \<Rightarrow> ustring" where
  "str_strip s = rev (dropWhile isspace (rev (dropWhile isspace s)))"

text \<open>\<open>s.startswith(p)\<close> and \<open>p in s\<close>.\<close>

definition str_startswith :: "ustring \<Rightarrow> ustring \<Rightarrow> bool" where
  "str_startswith s p \<longleftrightarrow> take (length p) s = p"

fun str_contains :: "ustring \<Rightarrow> ustring \<Rightarrow> bool" where
  "str_contains [] p \<longleftrightarrow> p = []"
| "str_contains (c # cs) p \<longleftrightarrow> str_startswith (c # cs) p \<or> str_contains cs p"

text \<open>\<open>s.split(sep)\<close> for a separator of one character.\<close>

fun str_split :: "nat \<Rightarrow> ustring \<Rightarrow> ustring list" where
  "str_split sep [] = [[]]"
| "str_split sep (c # cs) =
     (if c = sep then [] # str_split sep cs
      else (case str_split sep cs of [] \<Rightarrow> [[c]] | w # ws \<Rightarrow> (c # w) # ws))"

text \<open>
  \<open>s.splitlines()\<close>: a carriage return followed by a line feed is one boundary, and a
  text that ends in a boundary has no empty last line.
\<close>

fun str_splitlines :: "ustring \<Rightarrow> ustring list" where
  "str_splitlines [] = []"
| "str_splitlines [c] = (if islinebreak c then [[]] else [[c]])"
| "str_splitlines (c # d # cs) =
     (if c = 13 \<and> d = 10 then [] # str_splitlines cs
      else if islinebreak c then [] # str_splitlines (d # cs)
      else (case str_splitlines (d # cs) of [] \<Rightarrow> [[c]] | w # ws \<Rightarrow> (c # w) # ws))"

text \<open>\<open>str(n)\<close> for a Python \<open>int\<close>.\<close>

fun digits_of :: "nat \<Rightarrow> ustring" where
  "digits_of n = (if n < 10 then [48 + n] else digits_of (n div 10) @ [48 + n mod 10])"

declare digits_of.simps [simp del]

definition str_int :: "int \<Rightarrow> ustring" where
  "str_int i = (if i < 0 then 45 # digits_of (nat (- i)) else digits_of (nat i))"

section \<open>Regular expressions\<close>

text \<open>
  The fragment of \<open>re\<close> that the program's four patterns use, with the backtracking
  semantics of the library: \<open>run r s\<close> lists the ways \<open>r\<close> matches a prefix of \<open>s\<close>, in
  the order in which the matcher tries them, each as the text captured by group 1 (if the group
  took part) and the rest of the input. The first element is the match the library reports.
\<close>

datatype rx =
    Lit ustring
  | Star "nat \<Rightarrow> bool"
  | Plus "nat \<Rightarrow> bool"
  | LazyPlus "nat \<Rightarrow> bool"
  | Times nat "nat \<Rightarrow> bool"
  | Cat rx rx
  | Grp rx

text \<open>Greedy repetition offers the longest run first, lazy repetition the shortest.\<close>

fun star_greedy :: "(nat \<Rightarrow> bool) \<Rightarrow> ustring \<Rightarrow> ustring list" where
  "star_greedy P [] = [[]]"
| "star_greedy P (c # cs) = (if P c then star_greedy P cs else []) @ [c # cs]"

fun star_lazy :: "(nat \<Rightarrow> bool) \<Rightarrow> ustring \<Rightarrow> ustring list" where
  "star_lazy P [] = [[]]"
| "star_lazy P (c # cs) = (c # cs) # (if P c then star_lazy P cs else [])"

fun times :: "nat \<Rightarrow> (nat \<Rightarrow> bool) \<Rightarrow> ustring \<Rightarrow> ustring list" where
  "times 0 P s = [s]"
| "times (Suc n) P [] = []"
| "times (Suc n) P (c # cs) = (if P c then times n P cs else [])"

fun run :: "rx \<Rightarrow> ustring \<Rightarrow> (ustring option \<times> ustring) list" where
  "run (Lit l) s = (if str_startswith s l then [(None, drop (length l) s)] else [])"
| "run (Star P) s = map (Pair None) (star_greedy P s)"
| "run (Plus P) s =
     (case s of [] \<Rightarrow> [] | c # cs \<Rightarrow> if P c then map (Pair None) (star_greedy P cs) else [])"
| "run (LazyPlus P) s =
     (case s of [] \<Rightarrow> [] | c # cs \<Rightarrow> if P c then map (Pair None) (star_lazy P cs) else [])"
| "run (Times n P) s = map (Pair None) (times n P s)"
| "run (Cat a b) s =
     concat (map (\<lambda>(g, r). map (\<lambda>(g', r'). (case g' of None \<Rightarrow> g | Some x \<Rightarrow> Some x, r'))
                                 (run b r))
                 (run a s))"
| "run (Grp a) s = map (\<lambda>(g, r). (Some (take (length s - length r) s), r)) (run a s)"

text \<open>\<open>re.match\<close>: the first way to match at the start of the text.\<close>

definition re_match :: "rx \<Rightarrow> ustring \<Rightarrow> (ustring option \<times> ustring) option" where
  "re_match r s = (case run r s of [] \<Rightarrow> None | m # _ \<Rightarrow> Some m)"

text \<open>
  \<open>re.search\<close>: the leftmost position with a match; the result is the text before the
  match, group 1 and the text after the match.
\<close>

fun re_search :: "rx \<Rightarrow> ustring \<Rightarrow> (ustring \<times> ustring option \<times> ustring) option" where
  "re_search r [] = (case re_match r [] of None \<Rightarrow> None | Some (g, rest) \<Rightarrow> Some ([], g, rest))"
| "re_search r (c # cs) =
     (case re_match r (c # cs) of
        Some (g, rest) \<Rightarrow> Some ([], g, rest)
      | None \<Rightarrow> (case re_search r cs of
                   None \<Rightarrow> None
                 | Some (pre, g, rest) \<Rightarrow> Some (c # pre, g, rest)))"

text \<open>
  \<open>re.findall\<close> for a pattern with one group: group 1 of each match, the scan going on
  where the last match ended. The first argument counts the characters of the last match
  that are still to be skipped. (Both patterns used here consume at least one character,
  so the library's rules for empty matches never apply.)
\<close>

fun findall_skip :: "nat \<Rightarrow> rx \<Rightarrow> ustring \<Rightarrow> ustring list" where
  "findall_skip (Suc k) r [] = []"
| "findall_skip (Suc k) r (c # cs) = findall_skip k r cs"
| "findall_skip 0 r [] = (case re_match r [] of None \<Rightarrow> [] | Some (g, _) \<Rightarrow> [case g of None \<Rightarrow> [] | Some x \<Rightarrow> x])"
| "findall_skip 0 r (c # cs) =
     (case re_match r (c # cs) of
        None \<Rightarrow> findall_skip 0 r cs
      | Some (g, rest) \<Rightarrow>
          (case g of None \<Rightarrow> [] | Some x \<Rightarrow> x) #
          findall_skip (length cs - length rest) r cs)"

definition re_findall :: "rx \<Rightarrow> ustring \<Rightarrow> ustring list" where
  "re_findall r s = findall_skip 0 r s"

section \<open>The data file\<close>

text \<open>
  The file system as far as the program touches it: the one data file, absent or holding
  a text. \<open>read_text\<close> opens the file in text mode, so every carriage return, with the
  line feed after it if there is one, is read as a line feed; writing on POSIX stores the
  text as it is.
\<close>

type_synonym storage = "ustring option"

text \<open>
  How a command can end other than by returning: the exceptions that leave the program
  with a traceback and a non-zero status (\<open>re.error\<close> is \<open>ReError\<close>, and \<open>MarkupError\<close>
  is what the console of \<open>rich\<close> raises for a text whose markup it cannot render), and
  \<open>typer.Exit\<close> with its code.
\<close>

datatype error = FileNotFoundError | Exit nat | ValueError | OverflowError | ReError | MarkupError

fun universal_newlines :: "ustring \<Rightarrow> ustring" where
  "universal_newlines [] = []"
| "universal_newlines [c] = (if c = 13 then [10] else [c])"
| "universal_newlines (c # d # cs) =
     (if c = 13 \<and> d = 10 then 10 # universal_newlines cs
      else if c = 13 then 10 # universal_newlines (d # cs)
      else c # universal_newlines (d # cs))"

definition read_text :: "storage \<Rightarrow> error + ustring" where
  "read_text fs = (case fs of None \<Rightarrow> Inl FileNotFoundError | Some d \<Rightarrow> Inr (universal_newlines d))"

subsection \<open>The registry of actions\<close>

definition actions_heading :: ustring where
  "actions_heading = U ''## '' @ [21487, 29992, 21160, 20316] @ [10]"

text \<open>The pattern \<^verbatim>\<open>## ....\n(.+?)\n##\<close> of \<open>get_actions\<close>, compiled with DOTALL.\<close>

definition actions_rx :: rx where
  "actions_rx = Cat (Lit actions_heading) (Cat (Grp (LazyPlus (\<lambda>c. True))) (Lit (10 # U ''##'')))"

definition bullet_lines :: "ustring \<Rightarrow> ustring list" where
  "bullet_lines actions_text =
     map (\<lambda>line. drop 2 (str_strip line))
       (filter (\<lambda>line. str_startswith (str_strip line) (U ''- ''))
          (str_split 10 (str_strip actions_text)))"

definition get_actions :: "storage \<Rightarrow> error + ustring list" where
  "get_actions fs =
     (case read_text fs of
        Inl e \<Rightarrow> Inl e
      | Inr content \<Rightarrow>
          (case re_search actions_rx content of
             Some (_, Some actions_text, _) \<Rightarrow> Inr (bullet_lines actions_text)
           | _ \<Rightarrow> Inr []))"

subsection \<open>Creating the file\<close>

definition default_content :: ustring where
  "default_content =
     U ''# '' @ [25105, 30340, 35757, 32451, 26085, 24535] @ [10, 10] @
     actions_heading @
     U ''- '' @ [28145, 36466] @ U '' (Squat)'' @ [10] @
     U ''- '' @ [21351, 25512] @ U '' (Bench Press)'' @ [10] @
     U ''- '' @ [30828, 25289] @ U '' (Deadlift)'' @ [10, 10] @
     U ''## '' @ [35757, 32451, 30446, 26631] @ [10] @
     U ''- '' @ [28145, 36466] @ U '': 120 kg'' @ [10] @
     U ''- '' @ [21351, 25512] @ U '': 100 kg'' @ [10, 10]"

definition initialize_storage :: "storage \<Rightarrow> storage" where
  "initialize_storage fs = (case fs of None \<Rightarrow> Some default_content | Some d \<Rightarrow> Some d)"

section \<open>What the program takes from the Python runtime\<close>

text \<open>
  Case folding, the Unicode digit table, the replacement templates of \<open>re\<close>, the
  type \<open>float\<close> and the console markup of \<open>rich\<close> belong to the runtime and its
  libraries, not to the program. The program is modelled over any runtime that provides them:
  \<^item> \<open>py_lower\<close> is \<open>str.lower\<close>;
  \<^item> \<open>py_nd\<close> tells which code points beyond ASCII are decimal digits;
  \<^item> \<open>py_template\<close> compiles a replacement template of \<open>re.subn\<close> into a function
    of group 1, or fails (\<open>re.error\<close>);
  \<^item> \<open>py_float_str\<close> is \<open>str\<close> on a float, \<open>py_float_of_str\<close> is \<open>float\<close> on
    a string (\<open>None\<close> for \<open>ValueError\<close>), \<open>py_float_gt\<close> is the comparison \<open>>\<close> of floats,
    \<open>py_float_zero\<close> is \<open>0.0\<close>, and \<open>py_int_times_float\<close> multiplies an \<open>int\<close>
    by a float (\<open>None\<close> for the \<open>OverflowError\<close> of an \<open>int\<close> too large to convert);
  \<^item> \<open>py_markup\<close> tells whether \<open>console.print\<close> renders a text: the console reads
    square brackets in the text as style tags, and a closing tag such as \<^verbatim>\<open>[/x]\<close> with
    no open tag to close makes it raise \<open>MarkupError\<close> instead of printing (\<open>False\<close>).
    The text is the whole message, the values the program puts into it included.
\<close>

record 'f pylib =
  py_lower :: "ustring \<Rightarrow> ustring"
  py_nd :: "nat \<Rightarrow> bool"
  py_template :: "ustring \<Rightarrow> (ustring \<Rightarrow> ustring) option"
  py_float_str :: "'f \<Rightarrow> ustring"
  py_float_of_str :: "ustring \<Rightarrow> 'f option"
  py_float_gt :: "'f \<Rightarrow> 'f \<Rightarrow> bool"
  py_float_zero :: "'f"
  py_int_times_float :: "int \<Rightarrow> 'f \<Rightarrow> 'f option"
  py_markup :: "ustring \<Rightarrow> bool"

section \<open>The commands\<close>

subsection \<open>action add\<close>

text \<open>
  The raw f-string \<^verbatim>\<open>rf"\1- {name}\n"\<close> is the template: a backslash and \<open>1\<close>, the
  bullet marker, the name as given, a backslash and \<open>n\<close>. The library compiles the
  template before it searches. The pattern is the heading as group 1, replaced once.
\<close>

definition add_template :: "ustring \<Rightarrow> ustring" where
  "add_template name = [92, 49] @ U ''- '' @ name @ [92, 110]"

text \<open>
  The two messages that carry the name, as the f-strings build them: the report of a
  duplicate, in the tag \<^verbatim>\<open>[bold red]\<close>, and the confirmation, in the tag
  \<^verbatim>\<open>[bold green]\<close>, each with the name between apostrophes (code point 39).
\<close>

definition exists_message :: "ustring \<Rightarrow> ustring" where
  "exists_message name =
     U ''[bold red]'' @ [38169, 35823] @ U '': '' @ [21160, 20316] @ [32, 39] @ name @
     [39, 32] @ [24050, 23384, 22312, 12290] @ U ''[/bold red]''"

definition added_message :: "ustring \<Rightarrow> ustring" where
  "added_message name =
     U ''[bold green]'' @ [25104, 21151, 28155, 21152, 21160, 20316] @ U '': '' @ [39] @ name @
     [39] @ U ''[/bold green]''"

text \<open>
  \<open>action add\<close>. The duplicate is reported by \<open>console.print\<close> and then
  \<open>typer.Exit(code=1)\<close> is raised; when the console cannot render the message, its
  \<open>MarkupError\<close> comes first. On success the file is written before the message is
  printed, so a \<open>MarkupError\<close> there leaves the new text in the file. The message for a
  missing heading is a fixed text with balanced tags, which the console prints.
\<close>

definition action_add :: "'f pylib \<Rightarrow> ustring \<Rightarrow> storage \<Rightarrow> (error + unit) \<times> storage" where
  "action_add lib name fs =
     (case get_actions fs of
        Inl e \<Rightarrow> (Inl e, fs)
      | Inr actions \<Rightarrow>
          if name \<in> set actions
          then (Inl (if py_markup lib (exists_message name) then Exit 1 else MarkupError), fs)
          else
            (case read_text fs of
               Inl e \<Rightarrow> (Inl e, fs)
             | Inr content \<Rightarrow>
                 (case py_template lib (add_template name) of
                    None \<Rightarrow> (Inl ReError, fs)
                  | Some repl \<Rightarrow>
                      (case re_search (Grp (Lit actions_heading)) content of
                         Some (before, Some g, after) \<Rightarrow>
                           (if py_markup lib (added_message name) then Inr () else Inl MarkupError,
                            Some (before @ repl g @ after))
                       | _ \<Rightarrow> (Inl (Exit 1), fs)))))"

subsection \<open>record\<close>

record 'f record_result =
  matched_action :: ustring
  volume :: "'f"
  is_pr :: bool
  max_weight_before :: "'f"

text \<open>The loop that takes the first action containing the query, both in lower case.\<close>

fun find_action :: "(ustring \<Rightarrow> ustring) \<Rightarrow> ustring \<Rightarrow> ustring list \<Rightarrow> ustring option" where
  "find_action low action_name [] = None"
| "find_action low action_name (action # actions) =
     (if str_contains (low action) (low action_name) then Some action
      else find_action low action_name actions)"

fun seq :: "rx list \<Rightarrow> rx" where
  "seq [] = Lit []"
| "seq [r] = r"
| "seq (r # rs) = Cat r (seq rs)"

text \<open>
  The pattern of the scan for earlier weights,
  \<^verbatim>\<open>\|\s*NAME\s*\|\s*\d+\s*\|\s*\d+\s*\|\s*([\d.]+)\s*\|\<close>, where \<open>NAME\<close> is the matched
  action, escaped, so that it stands for itself.
\<close>

definition pr_rx :: "(nat \<Rightarrow> bool) \<Rightarrow> ustring \<Rightarrow> rx" where
  "pr_rx nd matched =
     seq [Lit [124], Star isspace, Lit matched, Star isspace,
          Lit [124], Star isspace, Plus (isdecimal nd), Star isspace,
          Lit [124], Star isspace, Plus (isdecimal nd), Star isspace,
          Lit [124], Star isspace, Grp (Plus (\<lambda>c. isdecimal nd c \<or> c = 46)), Star isspace,
          Lit [124]]"

text \<open>\<open>float(w)\<close> for every captured text; one that is no number raises \<open>ValueError\<close>.\<close>

fun floats_of :: "(ustring \<Rightarrow> 'f option) \<Rightarrow> ustring list \<Rightarrow> 'f list option" where
  "floats_of parse [] = Some []"
| "floats_of parse (w # ws) =
     (case parse w of
        None \<Rightarrow> None
      | Some x \<Rightarrow> (case floats_of parse ws of None \<Rightarrow> None | Some xs \<Rightarrow> Some (x # xs)))"

text \<open>\<open>max\<close> keeps the first of its arguments until a later one is greater.\<close>

fun py_max :: "('f \<Rightarrow> 'f \<Rightarrow> bool) \<Rightarrow> 'f \<Rightarrow> 'f list \<Rightarrow> 'f" where
  "py_max gt m [] = m"
| "py_max gt m (x # xs) = py_max gt (if gt x m then x else m) xs"

definition table_header :: ustring where
  "table_header =
     U ''| '' @ [21160, 20316] @ U '' (Action) | '' @ [32452, 25968] @ U '' (Sets) | '' @
     [27425, 25968] @ U '' (Rps) | '' @ [37325, 37327] @ U '' (KG) | '' @
     [35757, 32451, 37327] @ U '' (Volume) |'' @ [10] @
     U ''|---------------|-------------|------------|-----------|-----------------|''"

definition new_record_row :: "ustring \<Rightarrow> ustring \<Rightarrow> ustring \<Rightarrow> ustring \<Rightarrow> ustring \<Rightarrow> ustring" where
  "new_record_row matched sets reps kg vol =
     U ''| '' @ matched @ U '' | '' @ sets @ U '' | '' @ reps @ U '' | '' @ kg @ U '' | '' @ vol @ U '' |''"

definition date_header :: "ustring \<Rightarrow> ustring" where
  "date_header today_str = U ''## '' @ today_str"

text \<open>
  The maximum of the weights found by the scan: \<open>0.0\<close> when the scan finds nothing,
  \<open>None\<close> when a captured text is no number (\<open>ValueError\<close>).
\<close>

definition max_weight_of :: "'f pylib \<Rightarrow> ustring \<Rightarrow> ustring \<Rightarrow> 'f option" where
  "max_weight_of lib matched content =
     (case floats_of (py_float_of_str lib) (re_findall (pr_rx (py_nd lib) matched) content) of
        None \<Rightarrow> None
      | Some [] \<Rightarrow> Some (py_float_zero lib)
      | Some (w # ws) \<Rightarrow> Some (py_max (py_float_gt lib) w ws))"

text \<open>What is written at the end of the file, given the text read and the new row.\<close>

definition record_text :: "ustring \<Rightarrow> ustring \<Rightarrow> ustring \<Rightarrow> ustring" where
  "record_text today_str content row =
     (if str_contains content (date_header today_str) then 10 # row
      else [10, 10] @ date_header today_str @ [10] @ table_header @ [10] @ row)"

text \<open>
  The three messages that carry values, as the f-strings build them: the report of an
  unknown action with the query between apostrophes, the confirmation with the sets, the
  repetitions, the matched action, the weight and the volume, and the message for a
  personal record with the matched action, the weight and the maximum before. The numbers
  arrive as the strings the f-string makes of them.
\<close>

definition not_found_message :: "ustring \<Rightarrow> ustring" where
  "not_found_message action_name =
     U ''[bold red]'' @ [38169, 35823] @ U '': '' @ [21160, 20316] @ [32, 39] @ action_name @
     [39, 32] @ [26410, 22312, 21487, 29992, 21015, 34920, 20013, 25214, 21040, 12290] @
     U ''[/bold red]''"

definition success_message ::
  "ustring \<Rightarrow> ustring \<Rightarrow> ustring \<Rightarrow> ustring \<Rightarrow> ustring \<Rightarrow> ustring" where
  "success_message sets reps matched kg vol =
     U ''[green]'' @ [35760, 24405, 25104, 21151] @ U '': '' @ sets @ U ''x'' @ reps @ U '' '' @
     matched @ U '' @ '' @ kg @ U ''kg. '' @ [35757, 32451, 37327] @ U '': '' @ vol @
     U ''kg.[/green]''"

definition pr_message :: "ustring \<Rightarrow> ustring \<Rightarrow> ustring \<Rightarrow> ustring" where
  "pr_message matched kg mx =
     U ''[bold yellow]'' @
     [127881, 32, 24685, 21916, 65281, 20320, 21019, 36896, 20102, 26032, 30340, 20010, 20154,
      32426, 24405] @
     U '' (PR) in '' @ matched @ U '' at '' @ kg @ U ''kg! ('' @ [20043, 21069, 26159, 32] @ mx @
     U ''kg) '' @ [128293] @ U ''[/bold yellow]''"

text \<open>
  \<open>record\<close>, with the reading of the clock (\<open>get_today_date\<close>) as the argument
  \<open>today_str\<close>. The result of a call that returns holds what the command prints: the
  matched action, the volume, whether the weight is a personal record, and the maximum
  before. An unknown action is reported by \<open>console.print\<close> before
  \<open>typer.Exit(code=1)\<close>, so the \<open>MarkupError\<close> of a query the console cannot render
  comes first (the second line of that report is a fixed text without tags). The errors of
  the arithmetic come before the file is opened for appending; the confirmation, and the
  message for a personal record, are printed after the row is written, so a
  \<open>MarkupError\<close> there leaves the row in the file.
\<close>

definition record_cmd ::
  "'f pylib \<Rightarrow> ustring \<Rightarrow> ustring \<Rightarrow> int \<Rightarrow> 'f \<Rightarrow> int \<Rightarrow> storage \<Rightarrow>
     (error + 'f record_result) \<times> storage" where
  "record_cmd lib today_str action_name reps kg sets fs =
     (case get_actions fs of
        Inl e \<Rightarrow> (Inl e, fs)
      | Inr actions \<Rightarrow>
          (case find_action (py_lower lib) action_name actions of
             None \<Rightarrow>
               (Inl (if py_markup lib (not_found_message action_name) then Exit 1
                     else MarkupError), fs)
           | Some matched \<Rightarrow>
               if matched = []
               then (Inl (if py_markup lib (not_found_message action_name) then Exit 1
                          else MarkupError), fs)
               else
                 (case py_int_times_float lib (sets * reps) kg of
                    None \<Rightarrow> (Inl OverflowError, fs)
                  | Some vol \<Rightarrow>
                      (case read_text fs of
                         Inl e \<Rightarrow> (Inl e, fs)
                       | Inr content \<Rightarrow>
                           (case max_weight_of lib matched content of
                              None \<Rightarrow> (Inl ValueError, fs)
                            | Some mx \<Rightarrow>
                                (let row = new_record_row matched (str_int sets) (str_int reps)
                                             (py_float_str lib kg) (py_float_str lib vol)
                                 in (if \<not> py_markup lib
                                            (success_message (str_int sets) (str_int reps) matched
                                               (py_float_str lib kg) (py_float_str lib vol))
                                     then Inl MarkupError
                                     else if py_float_gt lib kg mx \<and>
                                             \<not> py_markup lib
                                                 (pr_message matched (py_float_str lib kg)
                                                    (py_float_str lib mx))
                                     then Inl MarkupError
                                     else Inr \<lparr>matched_action = matched, volume = vol,
                                               is_pr = py_float_gt lib kg mx,
                                               max_weight_before = mx\<rparr>,
                                     map_option (\<lambda>d. d @ record_text today_str content row)
                                       fs)))))))"

subsection \<open>history\<close>

record entry =
  e_date :: ustring
  e_action :: ustring
  e_sets :: ustring
  e_reps :: ustring
  e_kg :: ustring
  e_volume :: ustring

text \<open>The pattern \<^verbatim>\<open>## (\d{4}-\d{2}-\d{2})\<close>, matched at the start of the stripped line.\<close>

definition date_rx :: "(nat \<Rightarrow> bool) \<Rightarrow> rx" where
  "date_rx nd =
     Cat (Lit (U ''## ''))
         (Grp (seq [Times 4 (isdecimal nd), Lit [45], Times 2 (isdecimal nd), Lit [45],
                    Times 2 (isdecimal nd)]))"

text \<open>The truth value of \<open>current_date\<close>: neither \<open>None\<close> nor the empty string.\<close>

definition truthy :: "ustring option \<Rightarrow> bool" where
  "truthy v = (case v of None \<Rightarrow> False | Some s \<Rightarrow> s \<noteq> [])"

fun history_loop :: "(nat \<Rightarrow> bool) \<Rightarrow> ustring option \<Rightarrow> ustring list \<Rightarrow> entry list" where
  "history_loop nd current_date [] = []"
| "history_loop nd current_date (line # lines) =
     (case re_match (date_rx nd) (str_strip line) of
        Some (g, _) \<Rightarrow> history_loop nd g lines
      | None \<Rightarrow>
          (if truthy current_date \<and> str_startswith (str_strip line) [124] \<and>
              \<not> str_contains line (U ''---'')
           then
             (case map str_strip (str_split 124 (str_strip line)) of
                [_, action, sets, reps, kg, vol, _] \<Rightarrow>
                  (if action \<noteq> [] \<and> \<not> str_contains action (U ''Action'')
                   then \<lparr>e_date = (case current_date of None \<Rightarrow> [] | Some d \<Rightarrow> d),
                         e_action = action, e_sets = sets, e_reps = reps, e_kg = kg,
                         e_volume = vol\<rparr> # history_loop nd current_date lines
                   else history_loop nd current_date lines)
              | _ \<Rightarrow> history_loop nd current_date lines)
           else history_loop nd current_date lines))"

text \<open>
  The rows of the table that \<open>history\<close> prints, as the loop hands them to
  \<open>table.add_row\<close>. With no row a fixed notice is printed instead. The console renders
  every cell of the table as markup, so one cell that it cannot render makes the printing
  of the table raise \<open>MarkupError\<close>.
\<close>

definition entry_cells :: "entry \<Rightarrow> ustring list" where
  "entry_cells e = [e_date e, e_action e, e_sets e, e_reps e, e_kg e, e_volume e]"

definition history :: "'f pylib \<Rightarrow> storage \<Rightarrow> error + entry list" where
  "history lib fs =
     (case read_text fs of
        Inl e \<Rightarrow> Inl e
      | Inr content \<Rightarrow>
          (let rows = history_loop (py_nd lib) None (str_splitlines content) in
           if rows = [] then Inr []
           else if list_all (\<lambda>e. list_all (py_markup lib) (entry_cells e)) rows then Inr rows
           else Inl MarkupError))"

section \<open>A runtime for worked examples\<close>

text \<open>
  To run the model on concrete documents the examples use a small runtime. It agrees with
  CPython on the inputs the examples give it: lower case for ASCII letters, no digits
  beyond ASCII, replacement templates that are a reference to group 1, a text without
  backslashes and a final \<^verbatim>\<open>\n\<close>, and the floats that are multiples of one half, held
  as the number of halves (a float and its decimal numeral are exact there, and CPython
  prints them with one digit after the point). What lies outside is answered with \<open>None\<close>.
  The console is the last part of it, below.
\<close>

definition ascii_lower :: "ustring \<Rightarrow> ustring" where
  "ascii_lower s = map (\<lambda>c. if 65 \<le> c \<and> c \<le> 90 then c + 32 else c) s"

definition plain_template :: "ustring \<Rightarrow> (ustring \<Rightarrow> ustring) option" where
  "plain_template t =
     (let body = take (length t - 4) (drop 2 t) in
      if 4 \<le> length t \<and> take 2 t = [92, 49] \<and> drop (length t - 2) t = [92, 110] \<and>
         92 \<notin> set body
      then Some (\<lambda>g. g @ body @ [10]) else None)"

definition half_str :: "int \<Rightarrow> ustring" where
  "half_str h = (if h < 0 then [45] else []) @ digits_of (nat \<bar>h\<bar> div 2) @ [46] @
                (if even h then [48] else [53])"

definition ascii_digit :: "nat \<Rightarrow> bool" where
  "ascii_digit c \<longleftrightarrow> 48 \<le> c \<and> c \<le> 57"

definition digits_value :: "ustring \<Rightarrow> int" where
  "digits_value ds = foldl (\<lambda>a c. 10 * a + (int c - 48)) 0 ds"

definition half_of_str :: "ustring \<Rightarrow> int option" where
  "half_of_str s =
     (let ip = takeWhile ascii_digit s; r = dropWhile ascii_digit s in
      if r = [] then (if ip = [] then None else Some (2 * digits_value ip))
      else if hd r = 46 \<and> list_all ascii_digit (tl r) \<and> (ip \<noteq> [] \<or> tl r \<noteq> []) then
        (let fp = rev (dropWhile (\<lambda>c. c = 48) (rev (tl r))) in
         if fp = [] then Some (2 * digits_value ip)
         else if fp = [53] then Some (2 * digits_value ip + 1)
         else None)
      else None)"

text \<open>
  The console markup of the examples. A tag is an opening bracket, one of the characters
  \<open>a\<close> to \<open>z\<close>, \<open>#\<close>, \<open>/\<close>, \<open>@\<close>, and the text up to the next closing
  bracket, with no opening bracket in between; its name ends before the first \<open>=\<close>. A
  name that starts with \<open>/\<close> closes the innermost open tag of the name that follows
  (the innermost open tag of all when no name follows) and fails when there is none; any
  other tag is opened. \<open>markup_scan\<close> reads the text with the tag begun, if any, and the
  open tags, innermost first. It compares the names of tags as they are written and knows
  no backslash, which is enough for the texts of the examples.
\<close>

definition tag_start :: "nat \<Rightarrow> bool" where
  "tag_start c \<longleftrightarrow> (97 \<le> c \<and> c \<le> 122) \<or> c = 35 \<or> c = 47 \<or> c = 64"

fun close_tag :: "ustring \<Rightarrow> ustring list \<Rightarrow> ustring list option" where
  "close_tag n [] = None"
| "close_tag n (t # ts) =
     (if n = [] \<or> t = n then Some ts
      else (case close_tag n ts of None \<Rightarrow> None | Some ts' \<Rightarrow> Some (t # ts')))"

fun markup_scan :: "ustring option \<Rightarrow> ustring list \<Rightarrow> ustring \<Rightarrow> bool" where
  "markup_scan tag stack [] = True"
| "markup_scan None stack (c # cs) = markup_scan (if c = 91 then Some [] else None) stack cs"
| "markup_scan (Some t) stack (c # cs) =
     (if c = 91 then markup_scan (Some []) stack cs
      else if t = [] \<and> \<not> tag_start c then markup_scan None stack cs
      else if c = 93 then
        (case takeWhile (\<lambda>x. x \<noteq> 61) t of
           [] \<Rightarrow> markup_scan None ([] # stack) cs
         | x # n \<Rightarrow>
             if x = 47 then
               (case close_tag (str_strip n) stack of
                  None \<Rightarrow> False
                | Some stack' \<Rightarrow> markup_scan None stack' cs)
             else markup_scan None ((x # n) # stack) cs)
      else markup_scan (Some (t @ [c])) stack cs)"

definition markup_ok :: "ustring \<Rightarrow> bool" where
  "markup_ok text = markup_scan None [] text"

definition example_lib :: "int pylib" where
  "example_lib =
     \<lparr>py_lower = ascii_lower, py_nd = (\<lambda>c. False), py_template = plain_template,
      py_float_str = half_str, py_float_of_str = half_of_str, py_float_gt = (\<lambda>a b. b < a),
      py_float_zero = 0, py_int_times_float = (\<lambda>i h. Some (i * h)), py_markup = markup_ok\<rparr>"

text \<open>A document with one action and the heading of the day, and the day itself.\<close>

definition example_today :: ustring where
  "example_today = U ''2025-10-27''"

definition example_doc :: ustring where
  "example_doc = actions_heading @ U ''- Squat'' @ [10] @ U ''## 2025-10-27''"

text \<open>
  Three more documents: one with three actions, two of which contain \<open>squat\<close>; one
  whose only action is a closing tag; and the first document with a row whose weight cell
  is no number.
\<close>

definition example_registry_doc :: ustring where
  "example_registry_doc =
     actions_heading @ U ''- Bench Press'' @ [10] @ U ''- Front Squat'' @ [10] @
     U ''- Squat'' @ [10] @ U ''## 2025-10-27''"

definition example_markup_doc :: ustring where
  "example_markup_doc = actions_heading @ U ''- [/x]'' @ [10] @ U ''## 2025-10-27''"

definition example_bad_weight_doc :: ustring where
  "example_bad_weight_doc = example_doc @ [10] @ U ''| Squat | 3 | 5 | 1.2.3 | 1 |''"

section \<open>What the history lists, line by line\<close>

text \<open>
  The loop of \<open>history\<close> is compared below with a description of its result that looks
  at each line on its own. The description follows the tests of the loop:
  \<^item> \<open>heading_date\<close>: the date of a line that is a date heading, that is, whose text
    without the surrounding whitespace starts with \<open>##\<close>, a blank and a date
    (\<open>iso_date\<close>: four digits, a hyphen, two digits, a hyphen, two digits), whatever follows;
  \<^item> \<open>row_cells\<close>: the parts of the line between the column delimiters, each without its
    surrounding whitespace;
  \<^item> \<open>data_row\<close>: the line starts with the column delimiter, the text \<open>---\<close> occurs
    nowhere in it, it has seven parts, and the action cell is not empty and the text
    \<open>Action\<close> occurs nowhere in it;
  \<^item> \<open>current_date_at\<close>: the date of the last date heading before line \<open>i\<close>;
  \<^item> \<open>entry_at\<close>: the entry that line \<open>i\<close> gives, if it gives one;
  \<^item> \<open>decoded\<close>: the entries of all lines, in the order of the lines.
\<close>

definition iso_date :: "(nat \<Rightarrow> bool) \<Rightarrow> ustring \<Rightarrow> bool" where
  "iso_date nd d \<longleftrightarrow>
     length d = 10 \<and> list_all (isdecimal nd) (take 4 d) \<and> d ! 4 = 45 \<and>
     list_all (isdecimal nd) (take 2 (drop 5 d)) \<and> d ! 7 = 45 \<and>
     list_all (isdecimal nd) (drop 8 d)"

definition heading_date :: "(nat \<Rightarrow> bool) \<Rightarrow> ustring \<Rightarrow> ustring option" where
  "heading_date nd line =
     (if str_startswith (str_strip line) (U ''## '') \<and>
         iso_date nd (take 10 (drop 3 (str_strip line)))
      then Some (take 10 (drop 3 (str_strip line))) else None)"




definition current_date_from ::
  "(nat \<Rightarrow> bool) \<Rightarrow> ustring option \<Rightarrow> ustring list \<Rightarrow> ustring option" where
  "current_date_from nd cur before =
     (case filter (\<lambda>l. heading_date nd l \<noteq> None) before of
        [] \<Rightarrow> cur
      | h # hs \<Rightarrow> heading_date nd (last (h # hs)))"




text \<open>A document with a date heading and a row whose action cell holds the word \<open>Action\<close>.\<close>

definition example_history_doc :: ustring where
  "example_history_doc =
     U ''## 2025-10-27'' @ [10] @ U ''| Squat | 3 | 5 | 100.0 | 1500.0 |'' @ [10] @
     U ''| Action Squat | 3 | 5 | 100.0 | 1500.0 |''"

text \<open>
  A document whose registry section is empty: the heading of the registry, an empty line,
  the heading of the goals with one goal, and a date heading.
\<close>

definition example_empty_registry_doc :: ustring where
  "example_empty_registry_doc =
     actions_heading @ [10] @ U ''## '' @ [35757, 32451, 30446, 26631] @ [10] @
     U ''- '' @ [28145, 36466] @ U '': 120 kg'' @ [10, 10] @ U ''## 2025-10-27''"


section \<open>Evaluation\<close>

lemma times_numeral:
  "times (numeral k) P s =
     (case s of [] \<Rightarrow> [] | c # cs \<Rightarrow> if P c then times (pred_numeral k) P cs else [])"
  by (cases s) (simp_all add: numeral_eq_Suc)

lemmas text_defs =
  U_def isspace_def islinebreak_def isdecimal_def str_strip_def str_startswith_def str_int_def
  digits_of.simps

lemmas rx_defs = re_match_def re_findall_def times_numeral

lemmas file_defs =
  read_text_def actions_heading_def actions_rx_def bullet_lines_def get_actions_def
  default_content_def initialize_storage_def

lemmas message_defs =
  exists_message_def added_message_def not_found_message_def success_message_def pr_message_def

lemmas command_defs =
  add_template_def action_add_def pr_rx_def max_weight_of_def record_text_def table_header_def
  new_record_row_def date_header_def record_cmd_def date_rx_def truthy_def entry_cells_def
  history_def Let_def message_defs

lemmas example_defs =
  ascii_lower_def plain_template_def half_str_def ascii_digit_def digits_value_def
  half_of_str_def tag_start_def markup_ok_def example_lib_def example_today_def example_doc_def
  example_registry_doc_def example_markup_doc_def example_bad_weight_doc_def
  example_history_doc_def

lemmas eval_defs = text_defs rx_defs file_defs command_defs example_defs

lemma get_actions_example_doc: "get_actions (Some example_doc) = Inr [U ''Squat'']"
  by (simp add: eval_defs)

lemma get_actions_example_registry_doc:
  "get_actions (Some example_registry_doc) =
     Inr [U ''Bench Press'', U ''Front Squat'', U ''Squat'']"
  by (simp add: eval_defs)

lemma get_actions_example_markup_doc: "get_actions (Some example_markup_doc) = Inr [U ''[/x]'']"
  by (simp add: eval_defs)

lemma get_actions_example_bad_weight_doc:
  "get_actions (Some example_bad_weight_doc) = Inr [U ''Squat'']"
  by (simp add: eval_defs)

section \<open>Facts about the text functions\<close>

lemma str_startswith_iff: "str_startswith s p \<longleftrightarrow> (\<exists>t. s = p @ t)"
  unfolding str_startswith_def
  by (metis append_eq_conv_conj append_take_drop_id)

lemma str_startswith_append [simp]: "str_startswith (p @ t) p"
  by (simp add: str_startswith_def)


lemma find_action_eq_find:
  "find_action low q actions = find (\<lambda>a. str_contains (low a) (low q)) actions"
  by (induction actions) auto

lemma str_strip_last: "str_strip s \<noteq> [] \<Longrightarrow> \<not> isspace (last (str_strip s))"
proof -
  assume ne: "str_strip s \<noteq> []"
  let ?r = "dropWhile isspace (rev (dropWhile isspace s))"
  have "?r \<noteq> []" using ne by (simp add: str_strip_def)
  then have "\<not> isspace (hd ?r)" by (rule hd_dropWhile)
  moreover have "last (str_strip s) = hd ?r"
    using \<open>?r \<noteq> []\<close> by (simp add: str_strip_def last_rev)
  ultimately show ?thesis by simp
qed

lemma str_strip_subset: "set (str_strip s) \<subseteq> set s"
proof -
  have "set (dropWhile isspace (rev (dropWhile isspace s))) \<subseteq> set (rev (dropWhile isspace s))"
    by (rule set_dropWhileD[THEN subsetI]) 
  also have "\<dots> \<subseteq> set s" by (auto dest: set_dropWhileD)
  finally show ?thesis by (simp add: str_strip_def)
qed

lemma bullet_lines_entry:
  assumes "a \<in> set (bullet_lines t)"
  shows "a \<noteq> [] \<and> \<not> isspace (last a)"
proof -
  from assms obtain line where a: "a = drop 2 (str_strip line)"
    and sw: "str_startswith (str_strip line) (U ''- '')"
    by (auto simp: bullet_lines_def)
  from sw obtain r where r: "str_strip line = [45, 32] @ r"
    by (auto simp: str_startswith_iff U_def)
  have ne: "str_strip line \<noteq> []" using r by simp
  have nl: "\<not> isspace (last (str_strip line))" by (rule str_strip_last[OF ne])
  have "r \<noteq> []"
  proof
    assume "r = []"
    then have "last (str_strip line) = 32" using r by simp
    then show False using nl by (simp add: isspace_def)
  qed
  moreover have "a = r" using a r by simp
  moreover have "last (str_strip line) = last r" using r \<open>r \<noteq> []\<close> by simp
  ultimately show ?thesis using nl by simp
qed

lemma get_actions_entry:
  assumes "get_actions fs = Inr actions" and "a \<in> set actions"
  shows "a \<noteq> [] \<and> \<not> isspace (last a)"
  using assms bullet_lines_entry
  by (auto simp: get_actions_def split: sum.splits option.splits prod.splits)

section \<open>Creating the file\<close>

text \<open>
  C9. \<open>initialize_storage\<close> leaves an existing file as it is, creates an absent one with
  the fixed template, and is idempotent: a second call changes nothing. The template is,
  line by line and each line ended by a line feed: the title (\<open>#\<close> and six CJK characters),
  an empty line, the heading of the registry, the three default actions as bullets, an empty
  line, the heading of the goals (\<open>##\<close> and four CJK characters), two goals as bullets,
  and an empty line. The registry read back from the template is the three default actions.
\<close>

theorem initialize_storage_idempotent:
  "initialize_storage (Some d) = Some d \<and>
   initialize_storage None = Some default_content \<and>
   initialize_storage (initialize_storage fs) = initialize_storage fs \<and>
   default_content =
     concat (map (\<lambda>line. line @ [10])
       [U ''# '' @ [25105, 30340, 35757, 32451, 26085, 24535],
        [],
        U ''## '' @ [21487, 29992, 21160, 20316],
        U ''- '' @ [28145, 36466] @ U '' (Squat)'',
        U ''- '' @ [21351, 25512] @ U '' (Bench Press)'',
        U ''- '' @ [30828, 25289] @ U '' (Deadlift)'',
        [],
        U ''## '' @ [35757, 32451, 30446, 26631],
        U ''- '' @ [28145, 36466] @ U '': 120 kg'',
        U ''- '' @ [21351, 25512] @ U '': 100 kg'',
        []]) \<and>
   get_actions (Some default_content) =
     Inr [[28145, 36466] @ U '' (Squat)'', [21351, 25512] @ U '' (Bench Press)'',
          [30828, 25289] @ U '' (Deadlift)'']"
proof -
  have t: "default_content =
     concat (map (\<lambda>line. line @ [10])
       [U ''# '' @ [25105, 30340, 35757, 32451, 26085, 24535],
        [],
        U ''## '' @ [21487, 29992, 21160, 20316],
        U ''- '' @ [28145, 36466] @ U '' (Squat)'',
        U ''- '' @ [21351, 25512] @ U '' (Bench Press)'',
        U ''- '' @ [30828, 25289] @ U '' (Deadlift)'',
        [],
        U ''## '' @ [35757, 32451, 30446, 26631],
        U ''- '' @ [28145, 36466] @ U '': 120 kg'',
        U ''- '' @ [21351, 25512] @ U '': 100 kg'',
        []])"
    by (simp add: default_content_def actions_heading_def)
  have g: "get_actions (Some default_content) =
     Inr [[28145, 36466] @ U '' (Squat)'', [21351, 25512] @ U '' (Bench Press)'',
          [30828, 25289] @ U '' (Deadlift)'']"
    by (simp add: text_defs rx_defs file_defs)
  have i: "initialize_storage (Some d) = Some d \<and>
      initialize_storage None = Some default_content \<and>
      initialize_storage (initialize_storage fs) = initialize_storage fs"
    by (simp add: initialize_storage_def split: option.split)
  from i t g show ?thesis by blast
qed

section \<open>Adding an action that exists\<close>

text \<open>
  C6. When the name is one of the actions that \<open>get_actions\<close> lists (compared as it is,
  case included), \<open>action_add\<close> fails and the file is unchanged. The failure is exit code 1
  after the report of the duplicate; for a name that the console cannot render in that
  report it is the \<open>MarkupError\<close> of the report, which also ends the program with a
  non-zero status.
\<close>

theorem action_add_existing_fails_unchanged:
  assumes "get_actions fs = Inr actions" and "name \<in> set actions"
  shows "action_add lib name fs =
           (Inl (if py_markup lib (exists_message name) then Exit 1 else MarkupError), fs)"
  using assms by (simp add: action_add_def)

text \<open>
  Two instances: \<open>Squat\<close> in a registry that lists it (exit code 1), and the closing tag
  \<^verbatim>\<open>[/x]\<close> in a registry that lists it (\<open>MarkupError\<close>).
\<close>

theorem action_add_existing_witness:
  "get_actions (Some example_doc) = Inr [U ''Squat''] \<and>
   U ''Squat'' \<in> set [U ''Squat''] \<and>
   action_add example_lib (U ''Squat'') (Some example_doc) = (Inl (Exit 1), Some example_doc) \<and>
   get_actions (Some example_markup_doc) = Inr [U ''[/x]''] \<and>
   U ''[/x]'' \<in> set [U ''[/x]''] \<and>
   action_add example_lib (U ''[/x]'') (Some example_markup_doc) =
     (Inl MarkupError, Some example_markup_doc)"
proof -
  have m1: "U ''Squat'' \<in> set [U ''Squat'']" by simp
  have m2: "U ''[/x]'' \<in> set [U ''[/x]'']" by simp
  have p1: "py_markup example_lib (exists_message (U ''Squat''))"
    by (simp add: text_defs message_defs example_defs)
  have p2: "\<not> py_markup example_lib (exists_message (U ''[/x]''))"
    by (simp add: text_defs message_defs example_defs)
  have a1: "action_add example_lib (U ''Squat'') (Some example_doc) =
      (Inl (Exit 1), Some example_doc)"
    using action_add_existing_fails_unchanged
            [OF get_actions_example_doc m1, where lib = example_lib] p1
    by simp
  have a2: "action_add example_lib (U ''[/x]'') (Some example_markup_doc) =
      (Inl MarkupError, Some example_markup_doc)"
    using action_add_existing_fails_unchanged
            [OF get_actions_example_markup_doc m2, where lib = example_lib] p2
    by simp
  from get_actions_example_doc m1 a1 get_actions_example_markup_doc m2 a2
  show ?thesis by blast
qed

section \<open>Resolving the action\<close>

text \<open>
  C10. When no action of the registry contains the query (both in lower case), \<open>record\<close>
  fails and the file is unchanged: nothing was written. The failure is exit code 1 after
  the report of the unknown action; for a query that the console cannot render in that
  report it is the \<open>MarkupError\<close> of the report, which comes before the exit and also
  ends the program with a non-zero status.
\<close>

theorem record_unknown_action_unchanged:
  assumes "get_actions fs = Inr actions"
    and "\<forall>a\<in>set actions. \<not> str_contains (py_lower lib a) (py_lower lib action_name)"
  shows "record_cmd lib today_str action_name reps kg sets fs =
           (Inl (if py_markup lib (not_found_message action_name) then Exit 1 else MarkupError),
            fs)"
proof -
  have "find (\<lambda>a. str_contains (py_lower lib a) (py_lower lib action_name)) actions = None"
    using assms(2) by (simp add: find_None_iff)
  then show ?thesis
    using assms(1) by (simp add: record_cmd_def find_action_eq_find)
qed

text \<open>
  Two instances on the registry that lists \<open>Squat\<close> only: the query \<open>bench\<close> (exit code
  1) and the query \<^verbatim>\<open>[/x]\<close> (\<open>MarkupError\<close>).
\<close>

theorem record_unknown_action_witness:
  "get_actions (Some example_doc) = Inr [U ''Squat''] \<and>
   \<not> str_contains (py_lower example_lib (U ''Squat'')) (py_lower example_lib (U ''bench'')) \<and>
   record_cmd example_lib example_today (U ''bench'') 5 200 3 (Some example_doc) =
     (Inl (Exit 1), Some example_doc) \<and>
   \<not> str_contains (py_lower example_lib (U ''Squat'')) (py_lower example_lib (U ''[/x]'')) \<and>
   record_cmd example_lib example_today (U ''[/x]'') 5 200 3 (Some example_doc) =
     (Inl MarkupError, Some example_doc)"
proof -
  have n1: "\<forall>a\<in>set [U ''Squat''].
      \<not> str_contains (py_lower example_lib a) (py_lower example_lib (U ''bench''))"
    by (simp add: text_defs example_defs)
  have n2: "\<forall>a\<in>set [U ''Squat''].
      \<not> str_contains (py_lower example_lib a) (py_lower example_lib (U ''[/x]''))"
    by (simp add: text_defs example_defs)
  have p1: "py_markup example_lib (not_found_message (U ''bench''))"
    by (simp add: text_defs message_defs example_defs)
  have p2: "\<not> py_markup example_lib (not_found_message (U ''[/x]''))"
    by (simp add: text_defs message_defs example_defs)
  have r1: "record_cmd example_lib example_today (U ''bench'') 5 200 3 (Some example_doc) =
      (Inl (Exit 1), Some example_doc)"
    using record_unknown_action_unchanged
            [OF get_actions_example_doc n1, where today_str = example_today and reps = 5
               and kg = 200 and sets = 3] p1
    by simp
  have r2: "record_cmd example_lib example_today (U ''[/x]'') 5 200 3 (Some example_doc) =
      (Inl MarkupError, Some example_doc)"
    using record_unknown_action_unchanged
            [OF get_actions_example_doc n2, where today_str = example_today and reps = 5
               and kg = 200 and sets = 3] p2
    by simp
  from n1 n2 r1 r2 get_actions_example_doc show ?thesis by simp
qed

text \<open>
  C5, as the code has it. \<open>record\<close> resolves the query to the first action, in the order
  of the registry, that contains it when both are put in lower case, and every outcome is
  fixed by that action:
  \<^item> with no such action the file is left as it is and the call ends with exit code 1 after
    the report of the unknown action (with \<open>MarkupError\<close> when the console cannot render
    the query in the report);
  \<^item> with such an action the call never ends with exit code 1, but it can still fail: with
    \<open>OverflowError\<close> when the product of the sets and the repetitions is too large for a
    float, with \<open>ValueError\<close> when the scan for earlier weights of that action captures a
    text that is no number (both before anything is written), and with \<open>MarkupError\<close>
    after the row of that action is written, when the console cannot render the
    confirmation or the message for a personal record;
  \<^item> otherwise it succeeds with that action as the matched one, and the row written names it.

  So exit code 1 is returned exactly when no action contains the query and the report can
  be rendered, while a non-zero exit as such does not tell that no action contains it.
\<close>

theorem record_resolves_first_match:
  assumes "get_actions (Some d) = Inr actions"
  shows "record_cmd lib today_str action_name reps kg sets (Some d) =
     (case find (\<lambda>a. str_contains (py_lower lib a) (py_lower lib action_name)) actions of
        None \<Rightarrow>
          (Inl (if py_markup lib (not_found_message action_name) then Exit 1 else MarkupError),
           Some d)
      | Some a \<Rightarrow>
          (case py_int_times_float lib (sets * reps) kg of
             None \<Rightarrow> (Inl OverflowError, Some d)
           | Some vol \<Rightarrow>
               (case max_weight_of lib a (universal_newlines d) of
                  None \<Rightarrow> (Inl ValueError, Some d)
                | Some mx \<Rightarrow>
                    (if py_markup lib
                          (success_message (str_int sets) (str_int reps) a
                             (py_float_str lib kg) (py_float_str lib vol)) \<and>
                        (py_float_gt lib kg mx \<longrightarrow>
                           py_markup lib
                             (pr_message a (py_float_str lib kg) (py_float_str lib mx)))
                     then Inr \<lparr>matched_action = a, volume = vol,
                               is_pr = py_float_gt lib kg mx, max_weight_before = mx\<rparr>
                     else Inl MarkupError,
                     Some (d @ record_text today_str (universal_newlines d)
                                 (new_record_row a (str_int sets) (str_int reps)
                                    (py_float_str lib kg) (py_float_str lib vol))))))) \<and>
   (fst (record_cmd lib today_str action_name reps kg sets (Some d)) = Inl (Exit 1) \<longleftrightarrow>
      find (\<lambda>a. str_contains (py_lower lib a) (py_lower lib action_name)) actions = None \<and>
      py_markup lib (not_found_message action_name))"
proof -
  let ?found = "find (\<lambda>a. str_contains (py_lower lib a) (py_lower lib action_name)) actions"
  let ?rhs = "case ?found of
        None \<Rightarrow>
          (Inl (if py_markup lib (not_found_message action_name) then Exit 1 else MarkupError),
           Some d)
      | Some a \<Rightarrow>
          (case py_int_times_float lib (sets * reps) kg of
             None \<Rightarrow> (Inl OverflowError, Some d)
           | Some vol \<Rightarrow>
               (case max_weight_of lib a (universal_newlines d) of
                  None \<Rightarrow> (Inl ValueError, Some d)
                | Some mx \<Rightarrow>
                    (if py_markup lib
                          (success_message (str_int sets) (str_int reps) a
                             (py_float_str lib kg) (py_float_str lib vol)) \<and>
                        (py_float_gt lib kg mx \<longrightarrow>
                           py_markup lib
                             (pr_message a (py_float_str lib kg) (py_float_str lib mx)))
                     then Inr \<lparr>matched_action = a, volume = vol,
                               is_pr = py_float_gt lib kg mx, max_weight_before = mx\<rparr>
                     else Inl MarkupError,
                     Some (d @ record_text today_str (universal_newlines d)
                                 (new_record_row a (str_int sets) (str_int reps)
                                    (py_float_str lib kg) (py_float_str lib vol))))))"
  have eq: "record_cmd lib today_str action_name reps kg sets (Some d) = ?rhs"
  proof (cases ?found)
    case None
    then show ?thesis
      using assms by (simp add: record_cmd_def find_action_eq_find)
  next
    case (Some a)
    then have "a \<in> set actions" by (auto simp: find_Some_iff)
    then have ne: "a \<noteq> []" using get_actions_entry[OF assms] by blast
    show ?thesis
      using Some ne assms
      by (auto simp: record_cmd_def find_action_eq_find read_text_def Let_def
               split: option.splits)
  qed
  have "fst ?rhs = Inl (Exit 1) \<longleftrightarrow> ?found = None \<and> py_markup lib (not_found_message action_name)"
    by (auto split: option.splits)
  with eq show ?thesis by simp
qed

text \<open>
  An instance on the registry \<open>Bench Press\<close>, \<open>Front Squat\<close>, \<open>Squat\<close> with the query
  \<open>squat\<close>: the first action does not contain it, the second and the third do, and the
  second is the matched one.
\<close>

theorem record_resolves_witness:
  "get_actions (Some example_registry_doc) =
     Inr [U ''Bench Press'', U ''Front Squat'', U ''Squat''] \<and>
   find (\<lambda>a. str_contains (py_lower example_lib a) (py_lower example_lib (U ''squat'')))
     [U ''Bench Press'', U ''Front Squat'', U ''Squat''] = Some (U ''Front Squat'') \<and>
   record_cmd example_lib example_today (U ''squat'') 5 200 3 (Some example_registry_doc) =
     (Inr \<lparr>matched_action = U ''Front Squat'', volume = 3000, is_pr = True,
           max_weight_before = 0\<rparr>,
      Some (example_registry_doc @ 10 # U ''| Front Squat | 3 | 5 | 100.0 | 1500.0 |''))"
proof -
  have f: "find (\<lambda>a. str_contains (py_lower example_lib a) (py_lower example_lib (U ''squat'')))
     [U ''Bench Press'', U ''Front Squat'', U ''Squat''] = Some (U ''Front Squat'')"
    by (simp add: text_defs example_defs)
  have v: "py_int_times_float example_lib 15 200 = Some 3000"
    by (simp add: example_defs)
  have w: "max_weight_of example_lib (U ''Front Squat'') (universal_newlines example_registry_doc) =
      Some 0"
    by (simp add: eval_defs)
  have t: "record_text example_today (universal_newlines example_registry_doc)
        (new_record_row (U ''Front Squat'') (str_int 3) (str_int 5)
           (py_float_str example_lib 200) (py_float_str example_lib 3000)) =
      10 # U ''| Front Squat | 3 | 5 | 100.0 | 1500.0 |''"
    by (simp add: eval_defs)
  have p1: "py_markup example_lib
      (success_message (str_int 3) (str_int 5) (U ''Front Squat'')
         (py_float_str example_lib 200) (py_float_str example_lib 3000))"
    by (simp add: text_defs message_defs example_defs)
  have p2: "py_markup example_lib
      (pr_message (U ''Front Squat'') (py_float_str example_lib 200)
         (py_float_str example_lib 0))"
    by (simp add: text_defs message_defs example_defs)
  have g: "py_float_gt example_lib 200 0"
    by (simp add: example_defs)
  have r: "record_cmd example_lib example_today (U ''squat'') 5 200 3
        (Some example_registry_doc) =
      (Inr \<lparr>matched_action = U ''Front Squat'', volume = 3000, is_pr = True,
            max_weight_before = 0\<rparr>,
       Some (example_registry_doc @ 10 # U ''| Front Squat | 3 | 5 | 100.0 | 1500.0 |''))"
    using conjunct1 [OF record_resolves_first_match
            [OF get_actions_example_registry_doc, where lib = example_lib
               and action_name = "U ''squat''" and today_str = example_today
               and reps = 5 and kg = 200 and sets = 3]]
    unfolding f by (simp add: v w t p1 p2 g)
  from get_actions_example_registry_doc f r show ?thesis by blast
qed

text \<open>
  The claim as the specification words it lets \<open>record\<close> exit non-zero only when no
  action contains the query. Two calls where the one action of the registry contains the
  query and the call still fails: on a document with an earlier row of that action whose
  weight cell reads \<open>1.2.3\<close> the scan raises \<open>ValueError\<close> and nothing is written; on a
  registry whose action is the closing tag \<^verbatim>\<open>[/x]\<close> the row is written and the
  confirmation raises \<open>MarkupError\<close>.
\<close>

theorem record_fails_with_match_counterexample:
  "get_actions (Some example_bad_weight_doc) = Inr [U ''Squat''] \<and>
   str_contains (py_lower example_lib (U ''Squat'')) (py_lower example_lib (U ''squat'')) \<and>
   record_cmd example_lib example_today (U ''squat'') 5 200 3 (Some example_bad_weight_doc) =
     (Inl ValueError, Some example_bad_weight_doc) \<and>
   get_actions (Some example_markup_doc) = Inr [U ''[/x]''] \<and>
   str_contains (py_lower example_lib (U ''[/x]'')) (py_lower example_lib (U ''x'')) \<and>
   record_cmd example_lib example_today (U ''x'') 5 200 3 (Some example_markup_doc) =
     (Inl MarkupError,
      Some (example_markup_doc @ 10 # U ''| [/x] | 3 | 5 | 100.0 | 1500.0 |''))"
proof -
  have c1: "str_contains (py_lower example_lib (U ''Squat'')) (py_lower example_lib (U ''squat''))"
    by (simp add: text_defs example_defs)
  have r1: "record_cmd example_lib example_today (U ''squat'') 5 200 3
        (Some example_bad_weight_doc) = (Inl ValueError, Some example_bad_weight_doc)"
    by (simp add: eval_defs)
  have c2: "str_contains (py_lower example_lib (U ''[/x]'')) (py_lower example_lib (U ''x''))"
    by (simp add: text_defs example_defs)
  have r2: "record_cmd example_lib example_today (U ''x'') 5 200 3 (Some example_markup_doc) =
     (Inl MarkupError,
      Some (example_markup_doc @ 10 # U ''| [/x] | 3 | 5 | 100.0 | 1500.0 |''))"
    by (simp add: eval_defs)
  from get_actions_example_bad_weight_doc c1 r1 get_actions_example_markup_doc c2 r2
  show ?thesis by blast
qed

section \<open>Where the new row goes\<close>





section \<open>The history\<close>




subsection \<open>The pattern of a date heading\<close>


declare run.simps [simp del]






lemma length_U [simp]: "length (U s) = length s"
  by (simp add: U_def)




subsection \<open>The loop\<close>



declare history_loop.simps [simp del]

lemma current_date_from_Nil [simp]: "current_date_from nd cur [] = cur"
  by (simp add: current_date_from_def)








section \<open>Reading the registry\<close>

text \<open>
  C8. On the document whose registry section is empty, \<open>get_actions\<close> does not return
  the empty list: the pattern asks for at least one character after the heading and lets
  it run over line ends, so the section it finds starts at the empty line and ends before
  the date heading, and the goal of the goals section is returned as an action.
\<close>

theorem get_actions_empty_section_reads_goals:
  "get_actions (Some example_empty_registry_doc) = Inr [[28145, 36466] @ U '': 120 kg'']"
  by (simp add: text_defs rx_defs file_defs run.simps example_empty_registry_doc_def)

section \<open>Adding a new action\<close>

subsection \<open>Searching\<close>





subsection \<open>The section that the pattern of the registry finds\<close>






subsection \<open>The bullets of a section that starts with the new one\<close>








end
